theory Spec2Isabelle
  imports Main
begin

section \<open>The \<open>svg.builder\<close> model\<close>

text \<open>
  The model class declares five fields (lines 9--13) and two methods, \<open>create_svg\<close>
  (lines 15--24) and \<open>update_svg\<close> (lines 26--29). Field values are taken at the
  declared field types: a \<open>Char\<close> or \<open>Text\<close> field holds a string or is unset
  (Python \<open>False\<close>/\<open>None\<close>, here \<open>None\<close>), an \<open>Integer\<close> field holds
  an unbounded Python integer.
\<close>

subsection \<open>Data\<close>

record svg_builder =
  name :: "string option"
  svg_content :: "string option"
  width :: int
  height :: int
  background_color :: "string option"

text \<open>
  The table of the model: the stored rows, newest first (\<open>_order = 'create_date desc'\<close>),
  each with its database id, and the next id of the sequence.
\<close>

record table =
  rows :: "(nat \<times> svg_builder) list"
  next_id :: nat

text \<open>One entry of a values dictionary: the key is the constructor.\<close>

datatype field_val =
  Name "string option"
| SvgContent "string option"
| Width int
| Height int
| BackgroundColor "string option"

text \<open>
  \<open>TypeError\<close>: a call that leaves out a parameter without default.
  \<open>MissingRequiredField\<close>: a row whose \<open>required=True\<close> field is unset.
\<close>

datatype error = TypeError | MissingRequiredField

text \<open>An actual parameter of a call: left out, or passed with a value.\<close>

datatype 'a arg = Omitted | Passed 'a

subsection \<open>Field declarations and the framework's \<open>create\<close> and field assignment\<close>

text \<open>
  Lines 9--13: \<open>name\<close> and \<open>svg_content\<close> have no default, \<open>width\<close> defaults to
  800, \<open>height\<close> to 600 and \<open>background_color\<close> to \<open>'#ffffff'\<close>.
\<close>

definition field_defaults :: svg_builder where
  "field_defaults =
     \<lparr>name = None, svg_content = None, width = 800, height = 600,
      background_color = Some ''#ffffff''\<rparr>"

text \<open>Line 9: \<open>name\<close> is the only field declared \<open>required=True\<close>.\<close>

definition required_ok :: "svg_builder \<Rightarrow> bool" where
  "required_ok r = (name r \<noteq> None)"

fun set_field :: "field_val \<Rightarrow> svg_builder \<Rightarrow> svg_builder" where
  "set_field (Name v) r = r\<lparr>name := v\<rparr>"
| "set_field (SvgContent v) r = r\<lparr>svg_content := v\<rparr>"
| "set_field (Width v) r = r\<lparr>width := v\<rparr>"
| "set_field (Height v) r = r\<lparr>height := v\<rparr>"
| "set_field (BackgroundColor v) r = r\<lparr>background_color := v\<rparr>"

text \<open>
  \<open>self.create(vals)\<close> of the framework, as far as the class declarations decide it:
  a key absent from \<open>vals\<close> takes the field's default, a row with an unset required
  field is refused, and the class declares no other constraint (no
  \<open>_sql_constraints\<close>, no \<open>@api.constrains\<close>). The result is the id of the new row
  and the table holding it.
\<close>

definition create :: "table \<Rightarrow> field_val list \<Rightarrow> error + (nat \<times> table)" where
  "create T vals =
     (let r = fold set_field vals field_defaults in
      if required_ok r
      then Inr (next_id T, \<lparr>rows = (next_id T, r) # rows T, next_id = Suc (next_id T)\<rparr>)
      else Inl MissingRequiredField)"

text \<open>
  \<open>self.svg_content = value\<close> on a recordset \<open>self\<close> (the ids \<open>ids\<close>): the
  field is written on every row of the recordset and on no other row.
\<close>

definition assign_svg_content :: "table \<Rightarrow> nat list \<Rightarrow> string option \<Rightarrow> table" where
  "assign_svg_content T ids v =
     T\<lparr>rows := map (\<lambda>(i, r). if i \<in> set ids then (i, r\<lparr>svg_content := v\<rparr>) else (i, r))
                   (rows T)\<rparr>"

subsection \<open>The methods\<close>

text \<open>Binding of a parameter that has a default value.\<close>

fun arg_or :: "'a \<Rightarrow> 'a arg \<Rightarrow> 'a" where
  "arg_or d Omitted = d"
| "arg_or d (Passed v) = v"

text \<open>
  Lines 15--24. \<open>name\<close> and \<open>svg_content\<close> are parameters without default: a
  call that leaves one out raises \<open>TypeError\<close> before the body runs. The body passes
  all five keys to \<open>create\<close>.
\<close>

fun create_svg ::
  "table \<Rightarrow> string option arg \<Rightarrow> string option arg \<Rightarrow> int arg \<Rightarrow> int arg \<Rightarrow>
   string option arg \<Rightarrow> error + (nat \<times> table)" where
  "create_svg T Omitted c w h b = Inl TypeError"
| "create_svg T (Passed n) Omitted w h b = Inl TypeError"
| "create_svg T (Passed n) (Passed c) w h b =
     create T
       [Name n, SvgContent c, Width (arg_or 800 w), Height (arg_or 600 h),
        BackgroundColor (arg_or (Some ''#ffffff'') b)]"

text \<open>
  A call of \<open>create_svg\<close> as line 16 admits it. The signature declares the five
  parameters and neither \<open>*args\<close> nor \<open>**kwargs\<close>, so an argument that binds to
  none of them (a sixth positional argument, a keyword that is no parameter's name such as
  \<open>depth=3\<close>, a second value for a parameter) raises \<open>TypeError\<close> before the
  body runs, as a missing \<open>name\<close> or \<open>svg_content\<close> does. \<open>surplus\<close> is
  the number of such arguments in the call.
\<close>

definition call_create_svg ::
  "table \<Rightarrow> string option arg \<Rightarrow> string option arg \<Rightarrow> int arg \<Rightarrow> int arg \<Rightarrow>
   string option arg \<Rightarrow> nat \<Rightarrow> error + (nat \<times> table)" where
  "call_create_svg T n c w h b surplus =
     (if 0 < surplus then Inl TypeError else create_svg T n c w h b)"

text \<open>
  Lines 26--29, called on the recordset \<open>ids\<close> with the value \<open>c\<close>. The result
  is the table after the call and the returned value.
\<close>

definition update_svg :: "table \<Rightarrow> nat list \<Rightarrow> string option \<Rightarrow> table \<times> bool" where
  "update_svg T ids c = (assign_svg_content T ids c, True)"

text \<open>The property of a row that the specification calls the invariant of a document.\<close>

definition dims_positive :: "svg_builder \<Rightarrow> bool" where
  "dims_positive r = (0 < width r \<and> 0 < height r)"

section \<open>The Scene Graph of the editor\<close>

text \<open>
  The editor component (the scripts under \<open>static/src/js\<close> that the manifest lists) is
  not among the source files. Its Scene Graph is modelled here from sections 3, 4.2 and 7
  of the specification.
\<close>

subsection \<open>Scene Graph\<close>

text \<open>
  Modelled from the spec: the variants of an Element other than the group, which the
  missing editor component would declare (section 3: rect, circle, ellipse, path, text).
\<close>

datatype shape = Rect | Circle | Ellipse | Path | Text

text \<open>
  Modelled from the spec: the Element of the missing editor component (section 3). An
  element has a unique stable id; a group owns an ordered sequence of child elements; the
  z-index is the position in the parent's sequence. The geometry, style and transform
  attributes are the parameter \<open>'a\<close>.
\<close>

datatype 'a element =
  Shape nat shape 'a
| Group nat 'a "'a element list"

text \<open>
  Modelled from the spec: the errors of a Scene Graph mutation (sections 4.2 and 7) of
  the missing editor component. The specification names \<open>CyclicParentError\<close> only;
  \<open>InvalidTarget\<close> stands for the rejections it leaves unnamed (an id that is not in
  the tree, a new parent that is not a group).
\<close>

datatype scene_error = CyclicParentError | InvalidTarget

text \<open>Modelled from the spec: the id of an Element (section 3), missing with the editor.\<close>

fun el_id :: "'a element \<Rightarrow> nat" where
  "el_id (Shape i k a) = i"
| "el_id (Group i a cs) = i"

text \<open>
  Modelled from the spec: the ordered children that a group owns (section 3), missing
  with the editor; a shape has none.
\<close>

fun children :: "'a element \<Rightarrow> 'a element list" where
  "children (Shape i k a) = []"
| "children (Group i a cs) = cs"

text \<open>
  Modelled from the spec: the pre-order sequence of an element and everything below it,
  the per-element part of \<open>traverse()\<close> (section 4.2), missing with the editor.
\<close>

fun traverse_el :: "'a element \<Rightarrow> 'a element list" where
  "traverse_el (Shape i k a) = [Shape i k a]"
| "traverse_el (Group i a cs) = Group i a cs # concat (map traverse_el cs)"

text \<open>
  Modelled from the spec: \<open>traverse()\<close> (section 4.2) of the missing Scene Graph, the
  pre-order sequence of the Elements of a Document's root sequence.
\<close>

definition traverse :: "'a element list \<Rightarrow> 'a element list" where
  "traverse g = concat (map traverse_el g)"

text \<open>
  Modelled from the spec: the descendants of an Element of the missing Scene Graph, the
  elements strictly below it in the tree (sections 3 and 4.2).
\<close>

definition descendants :: "'a element \<Rightarrow> 'a element list" where
  "descendants e = concat (map traverse_el (children e))"

text \<open>
  Modelled from the spec: the invariant that ids are unique across the whole tree
  (section 4.2), which the missing Scene Graph enforces on every mutation.
\<close>

definition ids_unique :: "'a element list \<Rightarrow> bool" where
  "ids_unique g = distinct (map el_id (traverse g))"

text \<open>
  Modelled from the spec: \<open>find(id)\<close> (section 4.2) of the missing Scene Graph: the
  element of the tree with that id, if there is one.
\<close>

definition find_elem :: "'a element list \<Rightarrow> nat \<Rightarrow> 'a element option" where
  "find_elem g i = List.find (\<lambda>e. el_id e = i) (traverse g)"

text \<open>
  Modelled from the spec: the removal of the element with a given id, with all it owns,
  from below an element; the per-element part of \<open>remove(id)\<close> (section 4.2: the
  subsequent siblings shift), missing with the editor.
\<close>

fun remove_in :: "nat \<Rightarrow> 'a element \<Rightarrow> 'a element" where
  "remove_in i (Shape j k a) = Shape j k a"
| "remove_in i (Group j a cs) = Group j a (filter (\<lambda>c. el_id c \<noteq> i) (map (remove_in i) cs))"

text \<open>
  Modelled from the spec: \<open>remove(id)\<close> (section 4.2) on the root sequence of the
  missing Scene Graph.
\<close>

definition remove_elem :: "nat \<Rightarrow> 'a element list \<Rightarrow> 'a element list" where
  "remove_elem i g = filter (\<lambda>c. el_id c \<noteq> i) (map (remove_in i) g)"

text \<open>
  Modelled from the spec: the insertion of an element at an index of an ordered sequence
  (section 4.2: z-order is the index position, the subsequent siblings shift), missing
  with the editor. An index beyond the end appends.
\<close>

definition insert_at :: "nat \<Rightarrow> 'b \<Rightarrow> 'b list \<Rightarrow> 'b list" where
  "insert_at idx x xs = take idx xs @ x # drop idx xs"

text \<open>
  Modelled from the spec: the insertion of an element into the child sequence of the
  group with id \<open>p\<close> below an element; the per-element part of
  \<open>insert(parentId, element, index)\<close> (section 4.2), missing with the editor.
\<close>

fun insert_in :: "nat \<Rightarrow> 'a element \<Rightarrow> nat \<Rightarrow> 'a element \<Rightarrow> 'a element" where
  "insert_in p n idx (Shape j k a) = Shape j k a"
| "insert_in p n idx (Group j a cs) =
     (if j = p then Group j a (insert_at idx n cs)
      else Group j a (map (insert_in p n idx) cs))"

text \<open>
  Modelled from the spec: \<open>move(id, newParentId, newIndex)\<close> (section 4.2) of the
  missing Scene Graph, returning its outcome and the tree after the call. The move fails
  with \<open>CyclicParentError\<close> if the new parent is the moved node or one of its
  descendants (an element cannot be its own descendant), and a rejected operation leaves
  the prior state untouched (section 7). Otherwise the element is taken out of its place
  and inserted into the new parent's sequence, or into the root sequence when the new
  parent is null.
\<close>

definition move ::
  "'a element list \<Rightarrow> nat \<Rightarrow> nat option \<Rightarrow> nat \<Rightarrow> (scene_error + unit) \<times> 'a element list" where
  "move g i p idx =
     (case find_elem g i of
        None \<Rightarrow> (Inl InvalidTarget, g)
      | Some e \<Rightarrow>
          (case p of
             None \<Rightarrow> (Inr (), insert_at idx e (remove_elem i g))
           | Some pid \<Rightarrow>
               if pid \<in> set (map el_id (traverse_el e)) then (Inl CyclicParentError, g)
               else (case find_elem g pid of
                       Some (Group j a cs) \<Rightarrow>
                         (Inr (), map (insert_in pid e idx) (remove_elem i g))
                     | _ \<Rightarrow> (Inl InvalidTarget, g))))"

section \<open>Properties of the \<open>svg.builder\<close> model\<close>

subsection \<open>Helper facts\<close>

lemma create_all_keys:
  "create T [Name n, SvgContent c, Width w, Height h, BackgroundColor b] =
     (if n \<noteq> None
      then Inr (next_id T,
             \<lparr>rows = (next_id T,
                 \<lparr>name = n, svg_content = c, width = w, height = h,
                  background_color = b\<rparr>) # rows T,
              next_id = Suc (next_id T)\<rparr>)
      else Inl MissingRequiredField)"
  by (simp add: create_def field_defaults_def required_ok_def)

lemma create_name_only:
  "create T [Name (Some n)] =
     Inr (next_id T,
          \<lparr>rows = (next_id T,
              \<lparr>name = Some n, svg_content = None, width = 800, height = 600,
               background_color = Some ''#ffffff''\<rparr>) # rows T,
           next_id = Suc (next_id T)\<rparr>)"
  by (simp add: create_def field_defaults_def required_ok_def)

lemma assign_svg_content_length:
  "length (rows (assign_svg_content T ids v)) = length (rows T)"
  by (simp add: assign_svg_content_def)

lemma assign_svg_content_nth:
  assumes "k < length (rows T)"
  shows "rows (assign_svg_content T ids v) ! k =
           (fst (rows T ! k),
            (snd (rows T ! k))\<lparr>svg_content :=
               if fst (rows T ! k) \<in> set ids then v else svg_content (snd (rows T ! k))\<rparr>)"
  using assms by (simp add: assign_svg_content_def split_beta)

lemma assign_svg_content_empty: "assign_svg_content T [] v = T"
  by (simp add: assign_svg_content_def)

subsection \<open>Dimensions\<close>

text \<open>
  Claim C1, as the code has it. \<open>create_svg\<close> checks no dimension: whenever the name is
  set and the content is passed, the row is created with the width and height that were
  passed (or the defaults 800 and 600), whatever their sign, so the new row has a positive
  width and a positive height exactly when those values are positive. \<open>update_svg\<close>
  changes the width and the height of no row, so it keeps the property on every row that
  has it.
\<close>

theorem create_svg_dimensions_unchecked:
  "create_svg T (Passed (Some n)) (Passed c) w h b =
     Inr (next_id T,
          \<lparr>rows = (next_id T,
              \<lparr>name = Some n, svg_content = c, width = arg_or 800 w, height = arg_or 600 h,
               background_color = arg_or (Some ''#ffffff'') b\<rparr>) # rows T,
           next_id = Suc (next_id T)\<rparr>)
   \<and> (dims_positive
         \<lparr>name = Some n, svg_content = c, width = arg_or 800 w, height = arg_or 600 h,
          background_color = arg_or (Some ''#ffffff'') b\<rparr>
        \<longleftrightarrow> 0 < arg_or 800 w \<and> 0 < arg_or 600 h)
   \<and> map (\<lambda>(i, r). (i, width r, height r)) (rows (fst (update_svg T ids v))) =
       map (\<lambda>(i, r). (i, width r, height r)) (rows T)"
  by (simp add: create_all_keys dims_positive_def update_svg_def assign_svg_content_def
      split_beta)

text \<open>
  The statement above on a table that holds one row, at a width of 0 and a height of -5
  and at an update of that row.
\<close>

theorem create_svg_dimensions_unchecked_witness:
  "create_svg \<lparr>rows = [(0, field_defaults)], next_id = Suc 0\<rparr>
     (Passed (Some ''logo'')) (Passed (Some ''<svg/>'')) (Passed 0) (Passed (- 5)) Omitted =
     Inr (Suc 0,
          \<lparr>rows = [(Suc 0, \<lparr>name = Some ''logo'', svg_content = Some ''<svg/>'', width = 0,
                             height = - 5, background_color = Some ''#ffffff''\<rparr>),
                    (0, field_defaults)],
           next_id = Suc (Suc 0)\<rparr>)
   \<and> map (\<lambda>(i, r). (i, width r, height r))
         (rows (fst (update_svg \<lparr>rows = [(0, field_defaults)], next_id = Suc 0\<rparr> [0]
                       (Some ''<svg/>'')))) =
       [(0, 800, 600)]"
  using create_svg_dimensions_unchecked
    [of "\<lparr>rows = [(0, field_defaults)], next_id = Suc 0\<rparr>" "''logo''" "Some ''<svg/>''"
        "Passed 0" "Passed (- 5)" Omitted "[0]" "Some ''<svg/>''"]
  by (simp add: field_defaults_def)

text \<open>
  Claim C1 as stated fails: a call with width 0 and height -5 is not rejected, and the
  row it creates has neither a positive width nor a positive height.
\<close>

theorem create_svg_nonpositive_dimensions_counterexample:
  "create_svg \<lparr>rows = [], next_id = 0\<rparr>
     (Passed (Some ''logo'')) (Passed None) (Passed 0) (Passed (- 5)) Omitted =
     Inr (0, \<lparr>rows = [(0, \<lparr>name = Some ''logo'', svg_content = None, width = 0, height = - 5,
                             background_color = Some ''#ffffff''\<rparr>)],
               next_id = Suc 0\<rparr>)
   \<and> \<not> dims_positive \<lparr>name = Some ''logo'', svg_content = None, width = 0, height = - 5,
                        background_color = Some ''#ffffff''\<rparr>"
  by (simp add: create_all_keys dims_positive_def)

subsection \<open>Defaults\<close>

text \<open>
  Claim C2. A call of \<open>create_svg\<close> that leaves out width, height and background colour
  creates a row of width 800, height 600 and background colour \<open>'#ffffff'\<close>; the field
  declarations have the same three defaults, and \<open>create\<close> applies them to a values
  dictionary that lacks those keys.
\<close>

theorem create_svg_defaults:
  "create_svg T (Passed (Some n)) (Passed c) Omitted Omitted Omitted =
     Inr (next_id T,
          \<lparr>rows = (next_id T,
              \<lparr>name = Some n, svg_content = c, width = 800, height = 600,
               background_color = Some ''#ffffff''\<rparr>) # rows T,
           next_id = Suc (next_id T)\<rparr>)
   \<and> width field_defaults = 800
   \<and> height field_defaults = 600
   \<and> background_color field_defaults = Some ''#ffffff''
   \<and> create T [Name (Some n)] =
       Inr (next_id T,
            \<lparr>rows = (next_id T,
                \<lparr>name = Some n, svg_content = None, width = 800, height = 600,
                 background_color = Some ''#ffffff''\<rparr>) # rows T,
             next_id = Suc (next_id T)\<rparr>)"
  by (simp add: create_all_keys create_name_only field_defaults_def)

subsection \<open>Stored fields\<close>

text \<open>
  Claim C3. When \<open>create_svg\<close> is called with all five arguments and creates a row, the
  row stored under the returned id holds exactly the five arguments, and it is put in front
  of the rows that were there.
\<close>

theorem create_svg_stores_arguments:
  assumes "create_svg T (Passed n) (Passed c) (Passed w) (Passed h) (Passed b) = Inr (i, T')"
  shows "map_of (rows T') i =
           Some \<lparr>name = n, svg_content = c, width = w, height = h, background_color = b\<rparr>
         \<and> rows T' = (i, \<lparr>name = n, svg_content = c, width = w, height = h,
                          background_color = b\<rparr>) # rows T"
  using assms by (auto simp: create_all_keys split: if_splits)

text \<open>The statement above at a call on the empty table.\<close>

theorem create_svg_stores_arguments_witness:
  "create_svg \<lparr>rows = [], next_id = 0\<rparr> (Passed (Some ''logo'')) (Passed (Some ''<svg/>''))
     (Passed 320) (Passed 200) (Passed (Some ''#000000'')) =
     Inr (0, \<lparr>rows = [(0, \<lparr>name = Some ''logo'', svg_content = Some ''<svg/>'', width = 320,
                             height = 200, background_color = Some ''#000000''\<rparr>)],
               next_id = Suc 0\<rparr>)
   \<and> map_of (rows \<lparr>rows = [(0, \<lparr>name = Some ''logo'', svg_content = Some ''<svg/>'',
                                   width = 320, height = 200,
                                   background_color = Some ''#000000''\<rparr>)],
                     next_id = Suc 0\<rparr>) 0 =
       Some \<lparr>name = Some ''logo'', svg_content = Some ''<svg/>'', width = 320, height = 200,
             background_color = Some ''#000000''\<rparr>"
proof -
  have run: "create_svg \<lparr>rows = [], next_id = 0\<rparr> (Passed (Some ''logo''))
       (Passed (Some ''<svg/>'')) (Passed 320) (Passed 200) (Passed (Some ''#000000'')) =
     Inr (0, \<lparr>rows = [(0, \<lparr>name = Some ''logo'', svg_content = Some ''<svg/>'', width = 320,
                             height = 200, background_color = Some ''#000000''\<rparr>)],
               next_id = Suc 0\<rparr>)"
    by (simp add: create_all_keys)
  show ?thesis
    using run create_svg_stores_arguments [OF run] by simp
qed

subsection \<open>Updating the content\<close>

text \<open>
  Claim C7. \<open>update_svg\<close> keeps every row in its place with its id, sets the content of
  each row of the recordset to the value passed, and leaves the name, the width, the height
  and the background colour of every row as they were (and the content of the rows outside
  the recordset as well).
\<close>

theorem update_svg_frame:
  assumes "k < length (rows T)"
    and "rows T ! k = (i, r)"
    and "update_svg T ids c = (T', ok)"
  shows "length (rows T') = length (rows T)
         \<and> fst (rows T' ! k) = i
         \<and> svg_content (snd (rows T' ! k)) = (if i \<in> set ids then c else svg_content r)
         \<and> name (snd (rows T' ! k)) = name r
         \<and> width (snd (rows T' ! k)) = width r
         \<and> height (snd (rows T' ! k)) = height r
         \<and> background_color (snd (rows T' ! k)) = background_color r"
proof -
  from assms(3) have T': "T' = assign_svg_content T ids c"
    by (simp add: update_svg_def)
  from assms(1,2) show ?thesis
    unfolding T' by (simp add: assign_svg_content_length assign_svg_content_nth)
qed

text \<open>The statement above at a table of two rows, updating the newer one.\<close>

theorem update_svg_frame_witness:
  "(0::nat) < length (rows \<lparr>rows = [(1, \<lparr>name = Some ''b'', svg_content = None, width = 10,
                                          height = 20, background_color = None\<rparr>),
                                    (0, field_defaults)], next_id = 2\<rparr>)
   \<and> update_svg \<lparr>rows = [(1, \<lparr>name = Some ''b'', svg_content = None, width = 10,
                                height = 20, background_color = None\<rparr>),
                          (0, field_defaults)], next_id = 2\<rparr> [1] (Some ''<svg/>'') =
       (\<lparr>rows = [(1, \<lparr>name = Some ''b'', svg_content = Some ''<svg/>'', width = 10,
                        height = 20, background_color = None\<rparr>),
                  (0, field_defaults)], next_id = 2\<rparr>, True)
   \<and> svg_content (snd (rows \<lparr>rows = [(1, \<lparr>name = Some ''b'', svg_content = Some ''<svg/>'',
                                             width = 10, height = 20,
                                             background_color = None\<rparr>),
                                       (0, field_defaults)], next_id = 2\<rparr> ! 0)) =
       Some ''<svg/>''"
proof -
  have len: "(0::nat) < length (rows \<lparr>rows = [(1, \<lparr>name = Some ''b'', svg_content = None,
      width = 10, height = 20, background_color = None\<rparr>), (0, field_defaults)],
      next_id = 2\<rparr>)"
    by simp
  have row: "rows \<lparr>rows = [(1, \<lparr>name = Some ''b'', svg_content = None,
      width = 10, height = 20, background_color = None\<rparr>), (0, field_defaults)],
      next_id = 2\<rparr> ! 0 =
      (1, \<lparr>name = Some ''b'', svg_content = None, width = 10, height = 20,
           background_color = None\<rparr>)"
    by simp
  have run: "update_svg \<lparr>rows = [(1, \<lparr>name = Some ''b'', svg_content = None, width = 10,
                                height = 20, background_color = None\<rparr>),
                          (0, field_defaults)], next_id = 2\<rparr> [1] (Some ''<svg/>'') =
       (\<lparr>rows = [(1, \<lparr>name = Some ''b'', svg_content = Some ''<svg/>'', width = 10,
                        height = 20, background_color = None\<rparr>),
                  (0, field_defaults)], next_id = 2\<rparr>, True)"
    by (simp add: update_svg_def assign_svg_content_def)
  show ?thesis
    using len run update_svg_frame [OF len row run] by simp
qed

text \<open>
  Claim C8. \<open>update_svg\<close> returns \<open>True\<close> for every table, every recordset and
  every value, and it has no failing outcome; on the empty recordset it leaves the table
  as it is and returns \<open>True\<close>.
\<close>

theorem update_svg_returns_True:
  "snd (update_svg T ids c) = True \<and> update_svg T [] c = (T, True)"
  by (simp add: update_svg_def assign_svg_content_empty)

subsection \<open>Required arguments\<close>

lemma create_svg_binding_cases:
  "(create_svg T n c w h b = Inl TypeError \<longleftrightarrow> n = Omitted \<or> c = Omitted)
   \<and> (create_svg T n c w h b = Inl MissingRequiredField \<longleftrightarrow> n = Passed None \<and> c \<noteq> Omitted)
   \<and> ((\<exists>res. create_svg T n c w h b = Inr res) \<longleftrightarrow> (\<exists>s. n = Passed (Some s)) \<and> c \<noteq> Omitted)"
proof (cases n)
  case Omitted
  then show ?thesis by simp
next
  case (Passed x)
  show ?thesis
  proof (cases c)
    case Omitted
    with Passed show ?thesis by simp
  next
    case (Passed y)
    with \<open>n = Passed x\<close> show ?thesis
      by (cases x) (simp_all add: create_all_keys)
  qed
qed

text \<open>
  Claim C9, as the code has it. The name is not the only required argument of
  \<open>create_svg\<close>: the content is required too, and the signature takes no argument beyond
  its five parameters. A call fails with \<open>TypeError\<close> exactly when it leaves out the name
  or the content or passes an argument that binds to no parameter. Otherwise creation fails
  exactly when the name is unset (the required field), and it succeeds in every other case:
  no value of the content (unset and the empty string too), the width, the height or the
  background colour makes it fail.
\<close>

theorem call_create_svg_outcomes:
  "(call_create_svg T n c w h b k = Inl TypeError \<longleftrightarrow> n = Omitted \<or> c = Omitted \<or> 0 < k)
   \<and> (call_create_svg T n c w h b k = Inl MissingRequiredField
        \<longleftrightarrow> n = Passed None \<and> c \<noteq> Omitted \<and> k = 0)
   \<and> ((\<exists>res. call_create_svg T n c w h b k = Inr res)
        \<longleftrightarrow> (\<exists>s. n = Passed (Some s)) \<and> c \<noteq> Omitted \<and> k = 0)"
proof (cases "0 < k")
  case True
  then show ?thesis by (simp add: call_create_svg_def)
next
  case False
  then have "call_create_svg T n c w h b k = create_svg T n c w h b" and "k = 0"
    by (simp_all add: call_create_svg_def)
  with create_svg_binding_cases [of T n c w h b] show ?thesis by simp
qed

text \<open>
  The statement above at four calls on the empty table: a name with an unset content and
  a name with the empty content, which both create a row; an unset name, which is refused
  as a missing required field; and a name and a content with the width 320 and one
  argument that binds to no parameter, which is a \<open>TypeError\<close>.
\<close>

theorem call_create_svg_outcomes_witness:
  "(\<exists>res. call_create_svg \<lparr>rows = [], next_id = 0\<rparr> (Passed (Some ''logo'')) (Passed None)
            Omitted Omitted Omitted 0 = Inr res)
   \<and> (\<exists>res. call_create_svg \<lparr>rows = [], next_id = 0\<rparr> (Passed (Some ''logo''))
            (Passed (Some [])) Omitted Omitted Omitted 0 = Inr res)
   \<and> call_create_svg \<lparr>rows = [], next_id = 0\<rparr> (Passed None) (Passed (Some ''<svg/>''))
            Omitted Omitted Omitted 0 = Inl MissingRequiredField
   \<and> call_create_svg \<lparr>rows = [], next_id = 0\<rparr> (Passed (Some ''logo''))
            (Passed (Some ''<svg/>'')) (Passed 320) Omitted Omitted (Suc 0) = Inl TypeError"
  using call_create_svg_outcomes
      [of "\<lparr>rows = [], next_id = 0\<rparr>" "Passed (Some ''logo'')" "Passed None"
          Omitted Omitted Omitted 0]
    call_create_svg_outcomes
      [of "\<lparr>rows = [], next_id = 0\<rparr>" "Passed (Some ''logo'')" "Passed (Some [])"
          Omitted Omitted Omitted 0]
    call_create_svg_outcomes
      [of "\<lparr>rows = [], next_id = 0\<rparr>" "Passed None" "Passed (Some ''<svg/>'')"
          Omitted Omitted Omitted 0]
    call_create_svg_outcomes
      [of "\<lparr>rows = [], next_id = 0\<rparr>" "Passed (Some ''logo'')" "Passed (Some ''<svg/>'')"
          "Passed 320" Omitted Omitted "Suc 0"]
  by simp

text \<open>
  Claim C9 as stated fails twice. The name is not the only required argument: the call
  \<open>create_svg('logo')\<close>, which passes a name and leaves the content out, fails. And an
  argument other than the name can make the call fail: \<open>create_svg('logo', None, depth=3)\<close>,
  which passes a name, a content and one keyword that is no parameter, fails as well.
\<close>

theorem call_create_svg_required_counterexample:
  "call_create_svg \<lparr>rows = [], next_id = 0\<rparr> (Passed (Some ''logo'')) Omitted
     Omitted Omitted Omitted 0 = Inl TypeError
   \<and> call_create_svg \<lparr>rows = [], next_id = 0\<rparr> (Passed (Some ''logo'')) (Passed None)
       Omitted Omitted Omitted (Suc 0) = Inl TypeError"
  by (simp add: call_create_svg_def)

section \<open>Properties of the Scene Graph\<close>

subsection \<open>Helper facts\<close>

lemma find_distinct_key:
  "distinct (map f xs) \<Longrightarrow> x \<in> set xs \<Longrightarrow> List.find (\<lambda>e. f e = f x) xs = Some x"
proof (induction xs)
  case Nil
  then show ?case by simp
next
  case (Cons y ys)
  show ?case
  proof (cases "y = x")
    case True
    then show ?thesis by simp
  next
    case False
    with Cons.prems have "x \<in> set ys" and "f y \<noteq> f x" by auto
    with Cons show ?thesis by simp
  qed
qed

lemma descendants_subset: "set (descendants e) \<subseteq> set (traverse_el e)"
  by (cases e) (auto simp: descendants_def)

lemma find_elem_unique:
  assumes "ids_unique g" and "e \<in> set (traverse g)"
  shows "find_elem g (el_id e) = Some e"
  using assms unfolding ids_unique_def find_elem_def by (rule find_distinct_key)

subsection \<open>Moving an element below itself\<close>

text \<open>
  Claim C6. In a Scene Graph whose ids are unique, for every element \<open>e\<close> of the tree
  and every descendant \<open>d\<close> of \<open>e\<close>, \<open>move\<close> of \<open>e\<close> to the parent \<open>d\<close>
  fails with \<open>CyclicParentError\<close> at every index and returns the tree as it was.
\<close>

theorem move_into_descendant_rejected:
  assumes "ids_unique g"
    and "e \<in> set (traverse g)"
    and "d \<in> set (descendants e)"
  shows "move g (el_id e) (Some (el_id d)) idx = (Inl CyclicParentError, g)"
proof -
  have "find_elem g (el_id e) = Some e"
    using assms(1,2) by (rule find_elem_unique)
  moreover have "el_id d \<in> set (map el_id (traverse_el e))"
    using assms(3) descendants_subset [of e] by auto
  ultimately show ?thesis by (simp add: move_def)
qed

text \<open>
  The statement above at a tree of five elements: the group 1 is moved to the circle 4,
  which lies two levels below it.
\<close>

theorem move_into_descendant_rejected_witness:
  "ids_unique [Group 1 () [Shape 2 Rect (), Group 3 () [Shape 4 Circle ()]], Shape 5 Text ()]
   \<and> Group 1 () [Shape 2 Rect (), Group 3 () [Shape 4 Circle ()]]
       \<in> set (traverse
                [Group 1 () [Shape 2 Rect (), Group 3 () [Shape 4 Circle ()]],
                 Shape 5 Text ()])
   \<and> Shape 4 Circle ()
       \<in> set (descendants (Group 1 () [Shape 2 Rect (), Group 3 () [Shape 4 Circle ()]]))
   \<and> move [Group 1 () [Shape 2 Rect (), Group 3 () [Shape 4 Circle ()]], Shape 5 Text ()]
       1 (Some 4) 0 =
       (Inl CyclicParentError,
        [Group 1 () [Shape 2 Rect (), Group 3 () [Shape 4 Circle ()]], Shape 5 Text ()])"
proof -
  have u: "ids_unique
      [Group 1 () [Shape 2 Rect (), Group 3 () [Shape 4 Circle ()]], Shape 5 Text ()]"
    by (simp add: ids_unique_def traverse_def)
  have e: "Group 1 () [Shape 2 Rect (), Group 3 () [Shape 4 Circle ()]]
       \<in> set (traverse
                [Group 1 () [Shape 2 Rect (), Group 3 () [Shape 4 Circle ()]],
                 Shape 5 Text ()])"
    by (simp add: traverse_def)
  have d: "Shape 4 Circle ()
       \<in> set (descendants (Group 1 () [Shape 2 Rect (), Group 3 () [Shape 4 Circle ()]]))"
    by (simp add: descendants_def)
  show ?thesis
    using u e d move_into_descendant_rejected [OF u e d, of 0] by simp
qed

end
